theory Spec2Isabelle
  imports Main "HOL-Library.AList" "HOL-Library.Char_ord" "HOL-Library.List_Lexorder"
begin

section \<open>JavaScript values\<close>

text \<open>
  The worker (\<^verbatim>\<open>src/index.js\<close>) reads its request and its configuration from JSON.
  The scalar JSON values, with \<^verbatim>\<open>undefined\<close> for an absent property, are a datatype;
  numbers are the integers (timestamps, limits and flags are the only numbers the
  modelled code computes with).
\<close>

datatype jsval = JUndefined | JNull | JBool bool | JNum int | JStr string

text \<open>Truthiness, as \<^verbatim>\<open>!x\<close>, \<^verbatim>\<open>x ? a : b\<close>, \<^verbatim>\<open>x || y\<close> and \<^verbatim>\<open>if (x)\<close> test it.\<close>

fun truthy :: "jsval \<Rightarrow> bool" where
  "truthy JUndefined = False"
| "truthy JNull = False"
| "truthy (JBool b) = b"
| "truthy (JNum n) = (n \<noteq> 0)"
| "truthy (JStr s) = (s \<noteq> [])"

text \<open>An object is an association list; \<^verbatim>\<open>obj.k\<close> of a missing key is \<^verbatim>\<open>undefined\<close>.\<close>

type_synonym jsobj = "(string \<times> jsval) list"

definition get_prop :: "jsobj \<Rightarrow> string \<Rightarrow> jsval" where
  "get_prop obj k = (case map_of obj k of None \<Rightarrow> JUndefined | Some v \<Rightarrow> v)"

text \<open>
  \<^verbatim>\<open>{ ...a, ...b }\<close>: the properties of \<open>a\<close> with those of \<open>b\<close> laid over them.
  An association list stands for the object that \<open>get_prop\<close> reads from it (the first
  binding of a key counts); the order of the keys is not modelled.
\<close>

definition spread :: "jsobj \<Rightarrow> jsobj \<Rightarrow> jsobj" where
  "spread a b = AList.merge a b"

subsection \<open>parseInt\<close>

text \<open>
  \<^verbatim>\<open>parseInt(x)\<close> converts its argument to a string, skips leading white space, reads
  an optional sign, an optional \<^verbatim>\<open>0x\<close> prefix (radix 16, else radix 10) and the longest
  run of digits; no digit gives \<^verbatim>\<open>NaN\<close>, here \<open>None\<close>.
\<close>

definition is_ws :: "char \<Rightarrow> bool" where
  "is_ws c = (c \<in> set [CHR '' '', CHR 0x09, CHR 0x0A, CHR 0x0B, CHR 0x0C, CHR 0x0D])"

definition digit_val :: "char \<Rightarrow> nat option" where
  "digit_val c =
     map_of (zip ''0123456789abcdef'' [0 ..< 16] @ zip ''ABCDEF'' [10 ..< 16]) c"

fun digits :: "nat \<Rightarrow> string \<Rightarrow> nat list" where
  "digits r [] = []"
| "digits r (c # cs) =
     (case digit_val c of
        None \<Rightarrow> []
      | Some d \<Rightarrow> if d < r then d # digits r cs else [])"

definition strip_sign :: "string \<Rightarrow> bool \<times> string" where
  "strip_sign s =
     (case s of
        [] \<Rightarrow> (False, [])
      | c # cs \<Rightarrow>
          if c = CHR ''-'' then (True, cs)
          else if c = CHR ''+'' then (False, cs)
          else (False, s))"

definition strip_radix :: "string \<Rightarrow> nat \<times> string" where
  "strip_radix s =
     (case s of
        a # b # cs \<Rightarrow>
          if a = CHR ''0'' \<and> (b = CHR ''x'' \<or> b = CHR ''X'') then (16, cs) else (10, s)
      | _ \<Rightarrow> (10, s))"

definition parseInt_string :: "string \<Rightarrow> int option" where
  "parseInt_string s =
     (let (neg, u) = strip_sign (dropWhile is_ws s);
          (r, w) = strip_radix u;
          ds = digits r w
      in if ds = [] then None
         else Some ((if neg then - 1 else 1) * int (foldl (\<lambda>a d. a * r + d) 0 ds)))"

fun parseInt :: "jsval \<Rightarrow> int option" where
  "parseInt (JStr s) = parseInt_string s"
| "parseInt (JNum n) = Some n"
| "parseInt _ = None"

section \<open>The comment table\<close>

text \<open>
  One row of table \<^verbatim>\<open>comment\<close>, with the twenty columns in the order in which
  \<^verbatim>\<open>saveCommentStmt\<close> binds them. Field \<open>c_x\<close> is column \<^verbatim>\<open>x\<close> (\<open>c_id\<close> is \<^verbatim>\<open>_id\<close>).
  Column \<^verbatim>\<open>like\<close> holds \<^verbatim>\<open>JSON.stringify\<close> of an array of identity tokens; the row
  carries the array itself, which is what \<^verbatim>\<open>JSON.parse\<close> gives back.
\<close>

record comment =
  c_id :: string
  c_uid :: string
  c_nick :: string
  c_mail :: string
  c_mailMd5 :: string
  c_link :: string
  c_ua :: string
  c_ip :: string
  c_master :: int
  c_url :: string
  c_href :: string
  c_comment :: string
  c_pid :: string
  c_rid :: string
  c_isSpam :: int
  c_created :: int
  c_updated :: int
  c_like :: "string list"
  c_top :: int
  c_avatar :: string

text \<open>\<^verbatim>\<open>ORDER BY created DESC\<close> and \<^verbatim>\<open>LIMIT n\<close> (a negative limit is no limit in SQLite).\<close>

definition order_by_created_desc :: "comment list \<Rightarrow> comment list" where
  "order_by_created_desc rows = sort_key (\<lambda>c. - c_created c) rows"

definition sql_limit :: "int \<Rightarrow> 'a list \<Rightarrow> 'a list" where
  "sql_limit n rows = (if n < 0 then rows else take (nat n) rows)"

text \<open>The condition \<^verbatim>\<open>(isSpam != ?2 OR uid = ?3)\<close> shared by the three read queries.\<close>

definition spam_or_own :: "int \<Rightarrow> string \<Rightarrow> comment \<Rightarrow> bool" where
  "spam_or_own p2 p3 c = (c_isSpam c \<noteq> p2 \<or> c_uid c = p3)"

definition commentCountQuery :: "comment list \<Rightarrow> string \<Rightarrow> int \<Rightarrow> string \<Rightarrow> int" where
  "commentCountQuery tbl p1 p2 p3 =
     int (length (filter (\<lambda>c. c_url c = p1 \<and> c_rid c = [] \<and> spam_or_own p2 p3 c) tbl))"

definition commentQuery_where ::
  "string \<Rightarrow> int \<Rightarrow> string \<Rightarrow> int \<Rightarrow> int \<Rightarrow> comment \<Rightarrow> bool" where
  "commentQuery_where p1 p2 p3 p4 p5 c =
     (c_url c = p1 \<and> spam_or_own p2 p3 c \<and> c_created c < p4 \<and> c_top c = p5 \<and> c_rid c = [])"

definition commentQuery ::
  "comment list \<Rightarrow> string \<Rightarrow> int \<Rightarrow> string \<Rightarrow> int \<Rightarrow> int \<Rightarrow> int \<Rightarrow> comment list" where
  "commentQuery tbl p1 p2 p3 p4 p5 p6 =
     sql_limit p6 (order_by_created_desc (filter (commentQuery_where p1 p2 p3 p4 p5) tbl))"

text \<open>
  \<^verbatim>\<open>getReplyQuery(numParams)\<close> builds the statement text from \<^verbatim>\<open>replyQueryTemplate\<close>,
  with \<open>numParams\<close> question marks joined by \<^verbatim>\<open>', '\<close> in place of \<^verbatim>\<open>{{RIDS}}\<close>
  (the cache in front of it returns the statement prepared earlier for the same number).
\<close>

fun join :: "string \<Rightarrow> string list \<Rightarrow> string" where
  "join sep [] = []"
| "join sep [x] = x"
| "join sep (x # y # ys) = x @ sep @ join sep (y # ys)"

definition getReplyQuery :: "nat \<Rightarrow> string" where
  "getReplyQuery numParams =
     ''SELECT * FROM comment WHERE url = ?1 AND (isSpam != ?2 OR uid = ?3) AND rid IN (''
       @ join '', '' (replicate numParams ''?'') @ '')''"

definition replyQuery ::
  "comment list \<Rightarrow> string \<Rightarrow> int \<Rightarrow> string \<Rightarrow> string list \<Rightarrow> comment list" where
  "replyQuery tbl p1 p2 p3 rids =
     filter (\<lambda>c. c_url c = p1 \<and> spam_or_own p2 p3 c \<and> c_rid c \<in> set rids) tbl"

section \<open>Responses, requests and the worker's state\<close>

text \<open>
  \<^verbatim>\<open>RES_CODE\<close> comes from package \<^verbatim>\<open>twikoo-func/utils/constants\<close>, which is not part of
  this repository. The codes the worker uses are named here; \<open>code_number\<close> gives the
  numbers of the package, of which the worker itself only tests whether a code is
  zero (\<^verbatim>\<open>!res.code\<close>); \<open>OTHER_CODE n\<close> is a number set by a handler that is not
  modelled here.
\<close>

datatype res_code =
  SUCCESS | NO_PARAM | FAIL | EVENT_NOT_EXIST | PASS_EXIST | CONFIG_NOT_EXIST
| PASS_NOT_EXIST | PASS_NOT_MATCH | NEED_LOGIN | OTHER_CODE int

fun code_number :: "res_code \<Rightarrow> int" where
  "code_number SUCCESS = 0"
| "code_number NO_PARAM = 100"
| "code_number FAIL = 1000"
| "code_number EVENT_NOT_EXIST = 1001"
| "code_number PASS_EXIST = 1010"
| "code_number CONFIG_NOT_EXIST = 1020"
| "code_number PASS_NOT_EXIST = 1022"
| "code_number PASS_NOT_MATCH = 1023"
| "code_number NEED_LOGIN = 1024"
| "code_number (OTHER_CODE n) = n"

text \<open>
  The text of \<^verbatim>\<open>e.message\<close> or of a literal message. \<open>ParamInvalid p\<close> is what the
  package's \<^verbatim>\<open>validate\<close> throws for a missing parameter \<open>p\<close>; \<open>PleaseLogin\<close>,
  \<open>TooFrequent\<close>, \<open>TooHot\<close>, \<open>UpgradeFunction\<close> and \<open>RunningFine\<close> stand for the
  Chinese literals of the source; the others are errors of the JavaScript engine and
  of the database.
\<close>

datatype message =
  ParamInvalid string
| PleaseLogin
| TooFrequent
| TooHot
| TooManyRequests
| UpgradeFunction
| RunningFine
| TypeError string
| SyntaxError string
| SqlError string

text \<open>
  A response object \<^verbatim>\<open>res\<close>. \<open>r_data\<close> holds the rows from which the handler builds
  \<^verbatim>\<open>res.data\<close>: \<^verbatim>\<open>commentGet\<close> passes them through \<^verbatim>\<open>parseComment\<close> and
  \<^verbatim>\<open>getRecentComments\<close> through \<^verbatim>\<open>getAvatar\<close> and \<^verbatim>\<open>getMailMd5\<close>, functions of
  package \<^verbatim>\<open>twikoo-func\<close> that shape the rows for display.
\<close>

record res =
  r_code :: "res_code option"
  r_message :: "message option"
  r_data :: "comment list option"
  r_more :: "bool option"
  r_count :: "int option"
  r_version :: "string option"

definition empty_res :: res where
  "empty_res = \<lparr> r_code = None, r_message = None, r_data = None, r_more = None,
                 r_count = None, r_version = None \<rparr>"

text \<open>
  The JSON body of a request, with the fields the modelled handlers read, each absent
  (\<open>None\<close>, \<open>JUndefined\<close>) or of the type the client sends.
\<close>

record event =
  e_event :: "string option"
  e_accessToken :: "string option"
  e_url :: "string option"
  e_before :: "int option"
  e_id :: "string option"
  e_set :: "jsobj option"
  e_urls :: "string list option"
  e_includeReply :: jsval
  e_pageSize :: "int option"
  e_config :: "jsobj option"

definition empty_event :: event where
  "empty_event = \<lparr> e_event = None, e_accessToken = None, e_url = None, e_before = None,
     e_id = None, e_set = None, e_urls = None, e_includeReply = JUndefined,
     e_pageSize = None, e_config = None \<rparr>"

text \<open>
  The statements run on the D1 binding, as a log: every \<^verbatim>\<open>.first()\<close>, \<^verbatim>\<open>.all()\<close> and
  \<^verbatim>\<open>.run()\<close> of a modelled handler appends the statement with its bound arguments.
\<close>

datatype stmt =
  CommentCount string int string
| CommentSelect string int string int int int
| ReplySelect string string int string "string list"
| CommentSet "string list" "jsval list" string
| CommentDelete string
| CommentById string
| UpdateLike string "string list"
| CommentCountSinceByIp int "string option"
| CommentCountSince int
| RecentCommentsByUrl int string jsval jsval
| ReadConfig
| WriteConfig jsobj

text \<open>
  The single column of table \<^verbatim>\<open>config\<close> holds text: empty, the \<^verbatim>\<open>JSON.stringify\<close> of
  an object (then \<^verbatim>\<open>JSON.parse\<close> gives the object back), or text that \<^verbatim>\<open>JSON.parse\<close>
  rejects.
\<close>

datatype config_text = EmptyText | ObjectText jsobj | BadText

text \<open>
  The state: the module's variables \<^verbatim>\<open>config\<close>, \<^verbatim>\<open>accessToken\<close> and
  \<^verbatim>\<open>requestTimes\<close>, the two tables, and the statement log.
\<close>

record state =
  config :: jsobj
  accessToken :: string
  requestTimes :: "string option \<Rightarrow> nat"
  comment_tbl :: "comment list"
  config_tbl :: "config_text list"
  db_log :: "stmt list"

definition run :: "stmt \<Rightarrow> state \<Rightarrow> state" where
  "run q s = s\<lparr> db_log := db_log s @ [q] \<rparr>"

definition getUid :: "state \<Rightarrow> string" where
  "getUid s = accessToken s"

text \<open>\<open>md5\<close> is the hash of package \<^verbatim>\<open>twikoo-func/utils/lib\<close>, a parameter.\<close>

definition isAdmin :: "(string \<Rightarrow> string) \<Rightarrow> state \<Rightarrow> bool" where
  "isAdmin md5 s = (get_prop (config s) ''ADMIN_PASS'' = JStr (md5 (getUid s)))"

text \<open>
  \<^verbatim>\<open>validate(event, [p])\<close> of the package throws when \<^verbatim>\<open>event[p]\<close> is falsy: absent
  or the empty string.
\<close>

definition valid_param :: "string option \<Rightarrow> bool" where
  "valid_param v = (case v of None \<Rightarrow> False | Some x \<Rightarrow> x \<noteq> [])"

section \<open>Reading comments: commentGet\<close>

definition MAX_TIMESTAMP_MILLIS :: int where
  "MAX_TIMESTAMP_MILLIS = 41025312000000"

definition MAX_QUERY_LIMIT :: int where
  "MAX_QUERY_LIMIT = 500"

text \<open>\<^verbatim>\<open>parseInt(config.COMMENT_PAGE_SIZE) || 8\<close>: \<^verbatim>\<open>NaN\<close> and 0 are falsy.\<close>

definition page_size :: "jsobj \<Rightarrow> int" where
  "page_size cfg =
     (case parseInt (get_prop cfg ''COMMENT_PAGE_SIZE'') of
        None \<Rightarrow> 8
      | Some n \<Rightarrow> if n = 0 then 8 else n)"

text \<open>
  \<^verbatim>\<open>xs.splice(start, 1)\<close>: a negative start counts from the end, the start is clamped
  to the array, and the element there, if any, is removed.
\<close>

definition splice1 :: "int \<Rightarrow> 'a list \<Rightarrow> 'a list" where
  "splice1 start xs =
     (let n = int (length xs);
          i = (if start < 0 then max (n + start) 0 else min start n)
      in take (nat i) xs @ drop (nat i + 1) xs)"

text \<open>\<^verbatim>\<open>event.before ?? MAX_TIMESTAMP_MILLIS\<close> and the truthiness of \<^verbatim>\<open>event.before\<close>.\<close>

definition before_or_max :: "int option \<Rightarrow> int" where
  "before_or_max b = (case b of None \<Rightarrow> MAX_TIMESTAMP_MILLIS | Some t \<Rightarrow> t)"

definition before_truthy :: "int option \<Rightarrow> bool" where
  "before_truthy b = (case b of None \<Rightarrow> False | Some t \<Rightarrow> t \<noteq> 0)"

text \<open>
  The body of \<^verbatim>\<open>commentGet\<close> is one \<^verbatim>\<open>try\<close> block, whose \<^verbatim>\<open>catch\<close> answers with an
  empty \<^verbatim>\<open>data\<close> and the message of the error. In the model the error is the one that
  \<^verbatim>\<open>validate\<close> throws for a missing \<^verbatim>\<open>url\<close>; a statement that the database refuses is
  outside the model. \<open>page\<close> is the variable \<^verbatim>\<open>main\<close> after the pinned comments have been
  merged into it.
\<close>

definition commentGet :: "(string \<Rightarrow> string) \<Rightarrow> event \<Rightarrow> state \<Rightarrow> res \<times> state" where
  "commentGet md5 ev s =
     (if \<not> valid_param (e_url ev)
      then (empty_res\<lparr> r_data := Some [], r_message := Some (ParamInvalid ''url'') \<rparr>, s)
      else
        let url = (case e_url ev of None \<Rightarrow> [] | Some u \<Rightarrow> u);
            uid = getUid s;
            isAdminUser = isAdmin md5 s;
            limit = page_size (config s);
            p2 = (if isAdminUser then 2 else 1);
            count = commentCountQuery (comment_tbl s) url p2 uid;
            s1 = run (CommentCount url p2 uid) s;
            cursor = before_or_max (e_before ev);
            fetched = commentQuery (comment_tbl s1) url p2 uid cursor 0 (limit + 1);
            s2 = run (CommentSelect url p2 uid cursor 0 (limit + 1)) s1;
            more = (int (length fetched) > limit);
            main = (if more then splice1 limit fetched else fetched);
            with_top = (\<not> truthy (get_prop (config s) ''TOP_DISABLED'')
                        \<and> \<not> before_truthy (e_before ev));
            top = (if with_top
                   then commentQuery (comment_tbl s2) url p2 uid
                          MAX_TIMESTAMP_MILLIS 1 MAX_QUERY_LIMIT
                   else []);
            s3 = (if with_top
                  then run (CommentSelect url p2 uid MAX_TIMESTAMP_MILLIS 1 MAX_QUERY_LIMIT) s2
                  else s2);
            page = (if with_top then top @ main else main);
            rids = map c_id page;
            reply = replyQuery (comment_tbl s3) url p2 uid rids;
            s4 = run (ReplySelect (getReplyQuery (length page)) url p2 uid rids) s3
        in (empty_res\<lparr> r_data := Some (page @ reply), r_more := Some more,
                         r_count := Some count \<rparr>, s4))"

section \<open>Admin mutations: commentSetForAdmin and commentDeleteForAdmin\<close>

text \<open>
  \<^verbatim>\<open>UPDATE comment SET f = ? WHERE _id = ?\<close> on one row and one field. A text column
  takes a string, an integer column a number or a boolean (bound as 0 or 1); any other
  pair of column and value, and column \<^verbatim>\<open>like\<close>, whose text the row holds parsed, are
  outside the model and answered as a failed statement (\<open>None\<close>).
\<close>

definition set_text_column :: "string \<Rightarrow> string \<Rightarrow> comment \<Rightarrow> comment option" where
  "set_text_column f v c =
     (if f = ''_id'' then Some (c\<lparr> c_id := v \<rparr>)
      else if f = ''uid'' then Some (c\<lparr> c_uid := v \<rparr>)
      else if f = ''nick'' then Some (c\<lparr> c_nick := v \<rparr>)
      else if f = ''mail'' then Some (c\<lparr> c_mail := v \<rparr>)
      else if f = ''mailMd5'' then Some (c\<lparr> c_mailMd5 := v \<rparr>)
      else if f = ''link'' then Some (c\<lparr> c_link := v \<rparr>)
      else if f = ''ua'' then Some (c\<lparr> c_ua := v \<rparr>)
      else if f = ''ip'' then Some (c\<lparr> c_ip := v \<rparr>)
      else if f = ''url'' then Some (c\<lparr> c_url := v \<rparr>)
      else if f = ''href'' then Some (c\<lparr> c_href := v \<rparr>)
      else if f = ''comment'' then Some (c\<lparr> c_comment := v \<rparr>)
      else if f = ''pid'' then Some (c\<lparr> c_pid := v \<rparr>)
      else if f = ''rid'' then Some (c\<lparr> c_rid := v \<rparr>)
      else if f = ''avatar'' then Some (c\<lparr> c_avatar := v \<rparr>)
      else None)"

definition set_int_column :: "string \<Rightarrow> int \<Rightarrow> comment \<Rightarrow> comment option" where
  "set_int_column f n c =
     (if f = ''master'' then Some (c\<lparr> c_master := n \<rparr>)
      else if f = ''isSpam'' then Some (c\<lparr> c_isSpam := n \<rparr>)
      else if f = ''created'' then Some (c\<lparr> c_created := n \<rparr>)
      else if f = ''updated'' then Some (c\<lparr> c_updated := n \<rparr>)
      else if f = ''top'' then Some (c\<lparr> c_top := n \<rparr>)
      else None)"

fun set_column :: "string \<Rightarrow> jsval \<Rightarrow> comment \<Rightarrow> comment option" where
  "set_column f (JStr v) c = set_text_column f v c"
| "set_column f (JNum n) c = set_int_column f n c"
| "set_column f (JBool b) c = set_int_column f (if b then 1 else 0) c"
| "set_column f _ c = None"

fun set_columns :: "(string \<times> jsval) list \<Rightarrow> comment \<Rightarrow> comment option" where
  "set_columns [] c = Some c"
| "set_columns ((f, v) # fvs) c =
     (case set_column f v c of None \<Rightarrow> None | Some c' \<Rightarrow> set_columns fvs c')"

fun update_rows :: "('a \<Rightarrow> bool) \<Rightarrow> ('a \<Rightarrow> 'a option) \<Rightarrow> 'a list \<Rightarrow> 'a list option" where
  "update_rows P f [] = Some []"
| "update_rows P f (r # rs) =
     (if P r
      then (case f r of
              None \<Rightarrow> None
            | Some r' \<Rightarrow> map_option ((#) r') (update_rows P f rs))
      else map_option ((#) r) (update_rows P f rs))"

text \<open>
  \<^verbatim>\<open>getCommentSetStmt(fields)\<close> with its arguments bound and run: the statement text for
  no field at all, \<^verbatim>\<open>UPDATE comment SET  WHERE _id = ?\<close>, is not SQL.
\<close>

definition commentSetStmt ::
  "comment list \<Rightarrow> string list \<Rightarrow> jsval list \<Rightarrow> string \<Rightarrow> comment list option" where
  "commentSetStmt tbl field_names vals ident =
     (if field_names = [] then None
      else update_rows (\<lambda>c. c_id c = ident) (set_columns (zip field_names vals)) tbl)"

definition commentDeleteStmt :: "comment list \<Rightarrow> string \<Rightarrow> comment list" where
  "commentDeleteStmt tbl p1 = filter (\<lambda>c. c_id c \<noteq> p1) tbl"

text \<open>\<^verbatim>\<open>Object.keys(obj)\<close>: each key once.\<close>

definition keys :: "jsobj \<Rightarrow> string list" where
  "keys obj = remdups (map fst obj)"

definition commentSetForAdmin ::
  "(string \<Rightarrow> string) \<Rightarrow> event \<Rightarrow> state \<Rightarrow> (message + res) \<times> state" where
  "commentSetForAdmin md5 ev s =
     (if isAdmin md5 s then
        (case e_id ev of
           None \<Rightarrow> (Inl (ParamInvalid ''id''), s)
         | Some ident \<Rightarrow>
             if ident = [] then (Inl (ParamInvalid ''id''), s)
             else
               (case e_set ev of
                  None \<Rightarrow> (Inl (ParamInvalid ''set''), s)
                | Some set_obj \<Rightarrow>
                    let field_names = sort (keys set_obj);
                        vals = map (get_prop set_obj) field_names;
                        s1 = run (CommentSet field_names vals ident) s
                    in (case commentSetStmt (comment_tbl s1) field_names vals ident of
                          None \<Rightarrow> (Inl (SqlError ''commentSetStmt''), s1)
                        | Some tbl' \<Rightarrow>
                            (Inr (empty_res\<lparr> r_code := Some SUCCESS \<rparr>),
                             s1\<lparr> comment_tbl := tbl' \<rparr>))))
      else (Inr (empty_res\<lparr> r_code := Some NEED_LOGIN, r_message := Some PleaseLogin \<rparr>), s))"

definition commentDeleteForAdmin ::
  "(string \<Rightarrow> string) \<Rightarrow> event \<Rightarrow> state \<Rightarrow> (message + res) \<times> state" where
  "commentDeleteForAdmin md5 ev s =
     (if isAdmin md5 s then
        (case e_id ev of
           None \<Rightarrow> (Inl (ParamInvalid ''id''), s)
         | Some ident \<Rightarrow>
             if ident = [] then (Inl (ParamInvalid ''id''), s)
             else
               let s1 = run (CommentDelete ident) s
               in (Inr (empty_res\<lparr> r_code := Some SUCCESS \<rparr>),
                   s1\<lparr> comment_tbl := commentDeleteStmt (comment_tbl s1) ident \<rparr>))
      else (Inr (empty_res\<lparr> r_code := Some NEED_LOGIN, r_message := Some PleaseLogin \<rparr>), s))"

definition commentExportForAdmin ::
  "(string \<Rightarrow> string) \<Rightarrow> state \<Rightarrow> (message + res) \<times> state" where
  "commentExportForAdmin md5 s =
     (if isAdmin md5 s
      then (Inr (empty_res\<lparr> r_code := Some SUCCESS, r_data := Some (comment_tbl s) \<rparr>), s)
      else (Inr (empty_res\<lparr> r_code := Some NEED_LOGIN, r_message := Some PleaseLogin \<rparr>), s))"

section \<open>The like toggle\<close>

text \<open>\<^verbatim>\<open>xs.findIndex(p)\<close>: the index of the first element that satisfies \<open>p\<close>, else -1.\<close>

fun findIndex_from :: "int \<Rightarrow> ('a \<Rightarrow> bool) \<Rightarrow> 'a list \<Rightarrow> int" where
  "findIndex_from i p [] = - 1"
| "findIndex_from i p (x # xs) = (if p x then i else findIndex_from (i + 1) p xs)"

definition findIndex :: "('a \<Rightarrow> bool) \<Rightarrow> 'a list \<Rightarrow> int" where
  "findIndex p xs = findIndex_from 0 p xs"

definition commentByIdQuery :: "comment list \<Rightarrow> string \<Rightarrow> comment option" where
  "commentByIdQuery tbl p1 = find (\<lambda>c. c_id c = p1) tbl"

definition updateLikeStmt :: "comment list \<Rightarrow> string \<Rightarrow> string list \<Rightarrow> comment list" where
  "updateLikeStmt tbl p1 p2 = map (\<lambda>c. if c_id c = p1 then c\<lparr> c_like := p2 \<rparr> else c) tbl"

definition like :: "string \<Rightarrow> string \<Rightarrow> state \<Rightarrow> state" where
  "like ident uid s =
     (let s1 = run (CommentById ident) s
      in case commentByIdQuery (comment_tbl s1) ident of
           None \<Rightarrow> s1
         | Some c \<Rightarrow>
             let likes = c_like c;
                 likes' = (if findIndex (\<lambda>item. item = uid) likes = - 1
                           then likes @ [uid]
                           else filter (\<lambda>item. item \<noteq> uid) likes);
                 s2 = run (UpdateLike ident likes') s1
             in s2\<lparr> comment_tbl := updateLikeStmt (comment_tbl s2) ident likes' \<rparr>)"

definition commentLike :: "event \<Rightarrow> state \<Rightarrow> (message + res) \<times> state" where
  "commentLike ev s =
     (case e_id ev of
        None \<Rightarrow> (Inl (ParamInvalid ''id''), s)
      | Some ident \<Rightarrow>
          if ident = [] then (Inl (ParamInvalid ''id''), s)
          else (Inr empty_res, like ident (getUid s) s))"

section \<open>The submission rate limiter: limitFilter\<close>





section \<open>The configuration record: readConfig, writeConfig, setConfig\<close>

text \<open>
  \<^verbatim>\<open>JSON.parse(JSON.stringify(obj))\<close>: \<^verbatim>\<open>JSON.stringify\<close> leaves out the properties
  whose value is \<^verbatim>\<open>undefined\<close>.
\<close>

definition stringify :: "jsobj \<Rightarrow> config_text" where
  "stringify obj = ObjectText (filter (\<lambda>kv. get_prop obj (fst kv) \<noteq> JUndefined) obj)"

text \<open>
  \<^verbatim>\<open>SELECT value FROM config LIMIT 1\<close> with \<^verbatim>\<open>.first('value')\<close>: the first row's text,
  or \<^verbatim>\<open>null\<close> for a table without rows. \<^verbatim>\<open>readConfig\<close> parses it, except when it is
  falsy, and assigns the module's \<^verbatim>\<open>config\<close>.
\<close>

definition readConfig :: "state \<Rightarrow> (message + jsobj) \<times> state" where
  "readConfig s =
     (let s1 = run ReadConfig s
      in case config_tbl s1 of
           [] \<Rightarrow> (Inr [], s1\<lparr> config := [] \<rparr>)
         | EmptyText # _ \<Rightarrow> (Inr [], s1\<lparr> config := [] \<rparr>)
         | ObjectText obj # _ \<Rightarrow> (Inr obj, s1\<lparr> config := obj \<rparr>)
         | BadText # _ \<Rightarrow> (Inl (SyntaxError ''JSON.parse''), s1))"

text \<open>\<^verbatim>\<open>UPDATE config SET value = ?1\<close> rewrites every row there is.\<close>

definition writeConfigStmt :: "config_text list \<Rightarrow> config_text \<Rightarrow> config_text list" where
  "writeConfigStmt tbl p1 = map (\<lambda>_. p1) tbl"

definition writeConfig :: "jsobj \<Rightarrow> state \<Rightarrow> state" where
  "writeConfig newConfig s =
     (if length (keys newConfig) = 0 then s
      else
        (case readConfig s of
           (Inl e, s1) \<Rightarrow> s1
         | (Inr cur, s1) \<Rightarrow>
             let merged = spread cur newConfig;
                 s2 = run (WriteConfig merged) s1
             in s2\<lparr> config_tbl := writeConfigStmt (config_tbl s2) (stringify merged) \<rparr>))"

definition setConfig ::
  "(string \<Rightarrow> string) \<Rightarrow> event \<Rightarrow> state \<Rightarrow> (message + res) \<times> state" where
  "setConfig md5 ev s =
     (if isAdmin md5 s then
        (case e_config ev of
           None \<Rightarrow> (Inl (TypeError ''Object.keys''), s)
         | Some newConfig \<Rightarrow>
             (Inr (empty_res\<lparr> r_code := Some SUCCESS \<rparr>), writeConfig newConfig s))
      else (Inr (empty_res\<lparr> r_code := Some NEED_LOGIN, r_message := Some PleaseLogin \<rparr>), s))"

section \<open>Recent comments: getRecentComments\<close>

text \<open>
  The text of \<^verbatim>\<open>recentCommentsByUrlQuery\<close> ends in \<^verbatim>\<open>(?3 OR rid = "") AND LIMIT ?4\<close>,
  which is not SQL: running the statement fails, whatever is bound. The statements of
  the \<^verbatim>\<open>Promise.all\<close> branch are all started before the first failure is seen.
\<close>

definition recent_page_size :: "int option \<Rightarrow> int" where
  "recent_page_size pageSize =
     (case pageSize of
        None \<Rightarrow> 10
      | Some n \<Rightarrow> let m = (if n > 100 then 100 else n) in if m = 0 then 10 else m)"

definition getRecentComments :: "event \<Rightarrow> state \<Rightarrow> res \<times> state" where
  "getRecentComments ev s =
     (let size = JNum (recent_page_size (e_pageSize ev));
          failed = empty_res\<lparr> r_message := Some (SqlError ''recentCommentsByUrlQuery'') \<rparr>
      in if (case e_urls ev of None \<Rightarrow> False | Some urls \<Rightarrow> length urls \<noteq> 0)
         then (failed, run (RecentCommentsByUrl 1 [] (e_includeReply ev) size) s)
         else
           (case e_urls ev of
              None \<Rightarrow> (empty_res\<lparr> r_message := Some (TypeError ''map'') \<rparr>, s)
            | Some urls \<Rightarrow>
                let s1 = fold (\<lambda>url. run (RecentCommentsByUrl 0 url (e_includeReply ev) size))
                           urls s
                in if urls = [] then (empty_res\<lparr> r_data := Some [] \<rparr>, s1)
                   else (failed, s1)))"

section \<open>The entry point: fetch\<close>

text \<open>
  A request: its method, its body (\<^verbatim>\<open>request.body\<close> is \<^verbatim>\<open>null\<close> or a stream, and
  \<^verbatim>\<open>request.json()\<close> gives an object or fails) and the two headers the worker reads.
\<close>

datatype body = NoBody | NotJson | Json event

record request =
  q_method :: string
  q_body :: body
  q_origin :: "string option"
  q_ip :: "string option"

type_synonym headers = "(string \<times> jsval) list"

datatype response =
  Response204 headers
| ResponseJson res "string option" headers
| Unhandled message

text \<open>
  \<^verbatim>\<open>protect\<close> counts the requests of each address since the worker started;
  \<open>MAX_REQUEST_TIMES\<close> is a constant of package \<^verbatim>\<open>twikoo-func\<close>, a parameter here.
\<close>

definition protect :: "nat \<Rightarrow> request \<Rightarrow> state \<Rightarrow> message option \<times> state" where
  "protect MAX_REQUEST_TIMES req s =
     (let ip = q_ip req;
          n = requestTimes s ip + 1;
          s1 = s\<lparr> requestTimes := (requestTimes s)(ip := n) \<rparr>
      in if n > MAX_REQUEST_TIMES then (Some TooManyRequests, s1) else (None, s1))"

text \<open>\<open>uuid\<close> is \<^verbatim>\<open>uuidv4().replace(/-/g, '')\<close>, the token issued to a new caller.\<close>

definition anonymousSignIn :: "string \<Rightarrow> event \<Rightarrow> string" where
  "anonymousSignIn uuid ev =
     (case e_accessToken ev of
        None \<Rightarrow> uuid
      | Some t \<Rightarrow> if t \<noteq> [] then t else uuid)"

text \<open>
  \<^verbatim>\<open>/^https?:\/\/(localhost|127\.0\.0\.1|0\.0\.0\.0)(:\d{1,5})?$/\<close>,
  \<^verbatim>\<open>s.split(',')\<close> and \<^verbatim>\<open>s.replace(/\/$/, '')\<close>.
\<close>

definition port_suffix :: "string \<Rightarrow> bool" where
  "port_suffix r =
     (case r of
        [] \<Rightarrow> True
      | c # ds \<Rightarrow> c = CHR '':'' \<and> 1 \<le> length ds \<and> length ds \<le> 5
                 \<and> list_all (\<lambda>d. d \<in> set ''0123456789'') ds)"

definition localhostRegex :: "string \<Rightarrow> bool" where
  "localhostRegex origin =
     list_ex (\<lambda>p. take (length p) origin = p \<and> port_suffix (drop (length p) origin))
       (concat (map (\<lambda>scheme. map (\<lambda>host. scheme @ host)
                                  [''localhost'', ''127.0.0.1'', ''0.0.0.0''])
                    [''http://'', ''https://'']))"

fun split :: "char \<Rightarrow> string \<Rightarrow> string list" where
  "split sep [] = [[]]"
| "split sep (c # cs) =
     (if c = sep then [] # split sep cs
      else (case split sep cs of [] \<Rightarrow> [[c]] | w # ws \<Rightarrow> (c # w) # ws))"

definition strip_slash :: "string \<Rightarrow> string" where
  "strip_slash w = (if w \<noteq> [] \<and> last w = CHR ''/'' then butlast w else w)"

definition getAllowedOrigin :: "jsobj \<Rightarrow> string \<Rightarrow> message + string" where
  "getAllowedOrigin cfg origin =
     (if localhostRegex origin then Inr origin
      else if truthy (get_prop cfg ''CORS_ALLOW_ORIGIN'') then
        (case get_prop cfg ''CORS_ALLOW_ORIGIN'' of
           JStr list \<Rightarrow>
             if list_ex (\<lambda>cors. strip_slash cors = origin) (split CHR '','' list)
             then Inr origin else Inr []
         | _ \<Rightarrow> Inl (TypeError ''split''))
      else Inr origin)"

definition allowCors :: "jsobj \<Rightarrow> request \<Rightarrow> headers \<Rightarrow> message option \<times> headers" where
  "allowCors cfg req hs =
     (case q_origin req of
        None \<Rightarrow> (None, hs)
      | Some origin \<Rightarrow>
          if origin = [] then (None, hs)
          else
            let h1 = hs @ [(''Access-Control-Allow-Credentials'', JBool True)]
            in (case getAllowedOrigin cfg origin of
                  Inl e \<Rightarrow> (Some e, h1)
                | Inr allowed \<Rightarrow>
                    (None, h1 @
                       [(''Access-Control-Allow-Origin'', JStr allowed),
                        (''Access-Control-Allow-Methods'', JStr ''POST''),
                        (''Access-Control-Allow-Headers'',
                         JStr (''X-CSRF-Token, X-Requested-With, Accept, Accept-Version, ''
                               @ ''Content-Length, Content-MD5, Content-Type, Date, ''
                               @ ''X-Api-Version'')),
                        (''Access-Control-Max-Age'', JStr ''600'')])))"

text \<open>
  The \<^verbatim>\<open>switch\<close> of \<^verbatim>\<open>fetch\<close>. The handlers modelled above are called as they are.
  The others run code of package \<^verbatim>\<open>twikoo-func\<close> (version, password status, the
  configuration views, mail test, image upload, import, spam check and notification
  in \<^verbatim>\<open>commentSubmit\<close>), or are not needed here; they are the parameter \<open>others\<close>,
  which maps the event name, the event and the state to what the handler returns or
  throws.
\<close>

type_synonym handler = "string \<Rightarrow> event \<Rightarrow> state \<Rightarrow> (message + res) \<times> state"

definition VERSION :: string where
  "VERSION = ''1.6.40''"

definition lift_res :: "res \<times> state \<Rightarrow> (message + res) \<times> state" where
  "lift_res p = (Inr (fst p), snd p)"

definition dispatch ::
  "(string \<Rightarrow> string) \<Rightarrow> handler \<Rightarrow> event \<Rightarrow> state \<Rightarrow> (message + res) \<times> state" where
  "dispatch md5 others ev s =
     (let name = (case e_event ev of None \<Rightarrow> [] | Some n \<Rightarrow> n)
      in if name = ''GET_FUNC_VERSION'' then others name ev s
         else if name = ''COMMENT_GET'' then lift_res (commentGet md5 ev s)
         else if name = ''COMMENT_GET_FOR_ADMIN'' then others name ev s
         else if name = ''COMMENT_SET_FOR_ADMIN'' then commentSetForAdmin md5 ev s
         else if name = ''COMMENT_DELETE_FOR_ADMIN'' then commentDeleteForAdmin md5 ev s
         else if name = ''COMMENT_IMPORT_FOR_ADMIN'' then others name ev s
         else if name = ''COMMENT_LIKE'' then commentLike ev s
         else if name = ''COMMENT_SUBMIT'' then others name ev s
         else if name = ''COUNTER_GET'' then others name ev s
         else if name = ''GET_PASSWORD_STATUS'' then others name ev s
         else if name = ''SET_PASSWORD'' then others name ev s
         else if name = ''GET_CONFIG'' then others name ev s
         else if name = ''GET_CONFIG_FOR_ADMIN'' then others name ev s
         else if name = ''SET_CONFIG'' then setConfig md5 ev s
         else if name = ''LOGIN'' then others name ev s
         else if name = ''GET_COMMENTS_COUNT'' then others name ev s
         else if name = ''GET_RECENT_COMMENTS'' then lift_res (getRecentComments ev s)
         else if name = ''EMAIL_TEST'' then others name ev s
         else if name = ''UPLOAD_IMAGE'' then others name ev s
         else if name = ''COMMENT_EXPORT_FOR_ADMIN'' then commentExportForAdmin md5 s
         else if name \<noteq> [] then
           (Inr (empty_res\<lparr> r_code := Some EVENT_NOT_EXIST,
                            r_message := Some UpgradeFunction \<rparr>), s)
         else
           (Inr (empty_res\<lparr> r_code := Some NO_PARAM, r_message := Some RunningFine,
                            r_version := Some VERSION \<rparr>), s))"

text \<open>
  The \<^verbatim>\<open>try\<close> block of \<^verbatim>\<open>fetch\<close>: \<open>Inl\<close> is the error caught, \<open>Inr None\<close> the early
  return for method \<^verbatim>\<open>OPTIONS\<close>, \<open>Inr (Some res)\<close> the result of the \<^verbatim>\<open>switch\<close>.
\<close>

definition try_block ::
  "(string \<Rightarrow> string) \<Rightarrow> string \<Rightarrow> nat \<Rightarrow> handler \<Rightarrow> request \<Rightarrow> event \<Rightarrow> state
     \<Rightarrow> (message + res option) \<times> headers \<times> state" where
  "try_block md5 uuid MAX_REQUEST_TIMES others req ev s =
     (case protect MAX_REQUEST_TIMES req s of
        (Some e, s1) \<Rightarrow> (Inl e, [], s1)
      | (None, s1) \<Rightarrow>
          let s2 = s1\<lparr> accessToken := anonymousSignIn uuid ev \<rparr>
          in (case readConfig s2 of
                (Inl e, s3) \<Rightarrow> (Inl e, [], s3)
              | (Inr cfg, s3) \<Rightarrow>
                  (case allowCors (config s3) req [] of
                     (Some e, hs) \<Rightarrow> (Inl e, hs, s3)
                   | (None, hs) \<Rightarrow>
                       if q_method req = ''OPTIONS'' then (Inr None, hs, s3)
                       else
                         (case dispatch md5 others ev s3 of
                            (Inl e, s4) \<Rightarrow> (Inl e, hs, s4)
                          | (Inr r, s4) \<Rightarrow> (Inr (Some r), hs, s4)))))"

text \<open>\<^verbatim>\<open>!res.code\<close>\<close>

definition no_code :: "res \<Rightarrow> bool" where
  "no_code r = (case r_code r of None \<Rightarrow> True | Some c \<Rightarrow> code_number c = 0)"

definition fetch ::
  "(string \<Rightarrow> string) \<Rightarrow> string \<Rightarrow> nat \<Rightarrow> handler \<Rightarrow> request \<Rightarrow> state
     \<Rightarrow> response \<times> state" where
  "fetch md5 uuid MAX_REQUEST_TIMES others req s =
     (let ev = (case q_body req of Json e \<Rightarrow> e | _ \<Rightarrow> empty_event)
      in case try_block md5 uuid MAX_REQUEST_TIMES others req ev s of
           (Inr None, hs, s') \<Rightarrow> (Response204 hs, s')
         | (outcome, hs, s') \<Rightarrow>
             let r = (case outcome of
                        Inl e \<Rightarrow> empty_res\<lparr> r_code := Some FAIL, r_message := Some e \<rparr>
                      | Inr None \<Rightarrow> empty_res
                      | Inr (Some r0) \<Rightarrow> r0);
                 hs' = hs @ [(''content-type'', JStr ''application/json;charset=UTF-8'')]
             in if no_code r then
                  (if q_body req = NoBody then (Unhandled (TypeError ''accessToken''), s')
                   else (ResponseJson r (Some (accessToken s')) hs', s'))
                else (ResponseJson r None hs', s'))"

section \<open>Example data\<close>

text \<open>
  A row of page \<^verbatim>\<open>/post\<close> with the given id, author, thread root, spam flag, creation
  time and pin flag, and a state with the given configuration and rows, in which the
  caller's token is \<^verbatim>\<open>visitor\<close>. The theorems below are instantiated on them.
\<close>

definition example_row :: "string \<Rightarrow> string \<Rightarrow> string \<Rightarrow> int \<Rightarrow> int \<Rightarrow> int \<Rightarrow> comment" where
  "example_row ident uid rid isSpam created pinned =
     \<lparr> c_id = ident, c_uid = uid, c_nick = ''nick'', c_mail = [], c_mailMd5 = [],
       c_link = [], c_ua = ''ua'', c_ip = ''203.0.113.7'', c_master = 0, c_url = ''/post'',
       c_href = [], c_comment = ''text'', c_pid = rid, c_rid = rid, c_isSpam = isSpam,
       c_created = created, c_updated = created, c_like = [], c_top = pinned,
       c_avatar = [] \<rparr>"

definition example_state :: "jsobj \<Rightarrow> comment list \<Rightarrow> state" where
  "example_state cfg tbl =
     \<lparr> config = cfg, accessToken = ''visitor'', requestTimes = (\<lambda>_. 0),
       comment_tbl = tbl, config_tbl = [ObjectText cfg], db_log = [] \<rparr>"

text \<open>
  Six rows of page \<^verbatim>\<open>/post\<close>: three plain top-level comments, a pinned one, a reply to
  \<^verbatim>\<open>c3\<close> and a comment of another author that is marked as spam.
\<close>

definition example_page :: "comment list" where
  "example_page =
     [example_row ''c1'' ''author'' [] 0 100 0,
      example_row ''c2'' ''author'' [] 0 200 0,
      example_row ''c3'' ''author'' [] 0 300 0,
      example_row ''p1'' ''author'' [] 0 50 1,
      example_row ''r1'' ''other'' ''c3'' 0 400 0,
      example_row ''h1'' ''other'' [] 1 250 0]"


text \<open>
  A \<^verbatim>\<open>POST\<close> request with the given JSON body and no origin, and a stand-in for the
  handlers that are not modelled, which answers with an empty object.
\<close>

definition example_request :: "event \<Rightarrow> request" where
  "example_request ev = \<lparr> q_method = ''POST'', q_body = Json ev, q_origin = None,
                           q_ip = Some ''203.0.113.7'' \<rparr>"

definition no_others :: handler where
  "no_others name ev s = (Inr empty_res, s)"



section \<open>Admin mutations require the admin identity\<close>

text \<open>
  Claim C8. A \<^verbatim>\<open>COMMENT_SET_FOR_ADMIN\<close> or \<^verbatim>\<open>COMMENT_DELETE_FOR_ADMIN\<close> request of a
  requester who is not the admin is answered with code \<open>NEED_LOGIN\<close> and the login
  message, and leaves the whole state as it was: no statement is run and every row of
  the comment table is unchanged.
\<close>

theorem admin_mutation_needs_login:
  assumes "\<not> isAdmin md5 s"
  shows "commentSetForAdmin md5 ev s
           = (Inr (empty_res\<lparr> r_code := Some NEED_LOGIN, r_message := Some PleaseLogin \<rparr>), s)
         \<and> commentDeleteForAdmin md5 ev s
           = (Inr (empty_res\<lparr> r_code := Some NEED_LOGIN, r_message := Some PleaseLogin \<rparr>), s)"
  using assms by (simp add: commentSetForAdmin_def commentDeleteForAdmin_def)

theorem admin_mutation_needs_login_witness:
  "\<not> isAdmin rev (example_state [] [example_row ''c1'' ''author'' [] 0 100 0])
   \<and> comment_tbl (snd (commentDeleteForAdmin rev (empty_event\<lparr> e_id := Some ''c1'' \<rparr>)
        (example_state [] [example_row ''c1'' ''author'' [] 0 100 0])))
       = [example_row ''c1'' ''author'' [] 0 100 0]
   \<and> r_code (projr (fst (commentSetForAdmin rev
        (empty_event\<lparr> e_id := Some ''c1'', e_set := Some [(''top'', JNum 1)] \<rparr>)
        (example_state [] [example_row ''c1'' ''author'' [] 0 100 0])))) = Some NEED_LOGIN"
proof -
  have h: "\<not> isAdmin rev (example_state [] [example_row ''c1'' ''author'' [] 0 100 0])"
    by (simp add: isAdmin_def example_state_def get_prop_def)
  show ?thesis
    using h admin_mutation_needs_login [OF h] by (simp add: example_state_def)
qed

section \<open>Recent comments without a list of pages\<close>

text \<open>
  Claim C10. A \<^verbatim>\<open>GET_RECENT_COMMENTS\<close> request without field \<^verbatim>\<open>urls\<close> takes the branch
  that maps over \<^verbatim>\<open>event.urls\<close>; reading \<^verbatim>\<open>map\<close> of the absent list throws, the error
  is caught, and the response holds the error message only: no data, no code, and no
  statement has been run.
\<close>

theorem recent_comments_without_urls:
  assumes "e_urls ev = None"
  shows "getRecentComments ev s = (empty_res\<lparr> r_message := Some (TypeError ''map'') \<rparr>, s)
         \<and> r_data (fst (getRecentComments ev s)) = None"
  using assms by (simp add: getRecentComments_def empty_res_def)

theorem recent_comments_without_urls_witness:
  "e_urls (empty_event\<lparr> e_pageSize := Some 5 \<rparr>) = None
   \<and> r_message (fst (getRecentComments (empty_event\<lparr> e_pageSize := Some 5 \<rparr>)
        (example_state [] [example_row ''c1'' ''author'' [] 0 100 0])))
       = Some (TypeError ''map'')
   \<and> r_data (fst (getRecentComments (empty_event\<lparr> e_pageSize := Some 5 \<rparr>)
        (example_state [] [example_row ''c1'' ''author'' [] 0 100 0]))) = None"
proof -
  have h: "e_urls (empty_event\<lparr> e_pageSize := Some 5 \<rparr>) = None"
    by (simp add: empty_event_def)
  show ?thesis
    using h recent_comments_without_urls [OF h] by (simp add: empty_res_def)
qed

section \<open>The like toggle is its own inverse\<close>










section \<open>Configuration writes merge\<close>








section \<open>The rate limiter\<close>







section \<open>The page of top-level comments\<close>





lemma set_order_by [simp]: "set (order_by_created_desc xs) = set xs"
  by (simp add: order_by_created_desc_def)

lemma length_order_by [simp]: "length (order_by_created_desc xs) = length xs"
  by (simp add: order_by_created_desc_def)









section \<open>Visibility of hidden comments\<close>




section \<open>Pinned comments\<close>









section \<open>The reply query of an empty page\<close>





section \<open>The access token in the response\<close>

text \<open>No handler assigns the module's \<^verbatim>\<open>accessToken\<close>; only \<^verbatim>\<open>fetch\<close> does.\<close>

lemma readConfig_token: "accessToken (snd (readConfig s)) = accessToken s"
  by (simp add: readConfig_def run_def Let_def split: list.splits config_text.splits)

lemma writeConfig_token: "accessToken (writeConfig c s) = accessToken s"
proof (cases "readConfig s")
  case (Pair r s1)
  with readConfig_token [of s] have "accessToken s1 = accessToken s" by simp
  with Pair show ?thesis
    by (simp add: writeConfig_def Let_def run_def split: sum.splits)
qed

lemma like_token: "accessToken (like i u s) = accessToken s"
  by (simp add: like_def run_def Let_def split: option.splits)

lemma handler_token:
  "accessToken (snd (commentGet md5 ev s)) = accessToken s"
  "accessToken (snd (commentSetForAdmin md5 ev s)) = accessToken s"
  "accessToken (snd (commentDeleteForAdmin md5 ev s)) = accessToken s"
  "accessToken (snd (commentLike ev s)) = accessToken s"
  "accessToken (snd (setConfig md5 ev s)) = accessToken s"
  "accessToken (snd (commentExportForAdmin md5 s)) = accessToken s"
  by (simp_all add: commentGet_def commentSetForAdmin_def commentDeleteForAdmin_def
        commentLike_def setConfig_def commentExportForAdmin_def run_def Let_def like_token
        writeConfig_token split: option.splits)

lemma fold_run_token: "accessToken (fold (\<lambda>x. run (f x)) xs s) = accessToken s"
  by (induction xs arbitrary: s) (simp_all add: run_def)

lemma getRecentComments_token: "accessToken (snd (getRecentComments ev s)) = accessToken s"
  by (simp add: getRecentComments_def Let_def run_def fold_run_token split: option.splits)

lemma dispatch_token:
  assumes "\<forall>n e t. accessToken (snd (others n e t)) = accessToken t"
  shows "accessToken (snd (dispatch md5 others ev s)) = accessToken s"
  using assms
  by (simp add: dispatch_def Let_def lift_res_def handler_token getRecentComments_token)

lemma dispatch_no_event:
  "e_event ev = None \<Longrightarrow> \<exists>r s'. dispatch md5 others ev s = (Inr r, s') \<and> \<not> no_code r"
  by (simp add: dispatch_def no_code_def)

lemma try_block_result:
  assumes keep: "\<forall>n e t. accessToken (snd (others n e t)) = accessToken t"
    and t: "try_block md5 uuid M others req ev s = (outcome, hs, s')"
  shows "(outcome = Inr None \<longrightarrow> q_method req = ''OPTIONS'')
       \<and> (\<forall>r. outcome = Inr (Some r) \<longrightarrow>
              accessToken s' = anonymousSignIn uuid ev \<and> (e_event ev = None \<longrightarrow> \<not> no_code r))"
proof (cases "protect M req s")
  case (Pair pe s1)
  show ?thesis
  proof (cases pe)
    case (Some e)
    with Pair t show ?thesis by (auto simp: try_block_def)
  next
    case None
    define s2 where "s2 = s1\<lparr> accessToken := anonymousSignIn uuid ev \<rparr>"
    obtain rc s3 where rc: "readConfig s2 = (rc, s3)" by (cases "readConfig s2")
    have tok3: "accessToken s3 = anonymousSignIn uuid ev"
      using readConfig_token [of s2] rc by (simp add: s2_def)
    show ?thesis
    proof (cases rc)
      case (Inl e)
      with Pair None rc t show ?thesis by (auto simp: try_block_def s2_def)
    next
      case (Inr cfg)
      obtain ce hs1 where ac: "allowCors (config s3) req [] = (ce, hs1)"
        by (cases "allowCors (config s3) req []")
      show ?thesis
      proof (cases ce)
        case (Some e)
        with Pair None rc Inr ac t show ?thesis by (auto simp: try_block_def s2_def)
      next
        case no_cors_error: None
        show ?thesis
        proof (cases "q_method req = ''OPTIONS''")
          case True
          with Pair None rc Inr ac no_cors_error t show ?thesis
            by (auto simp: try_block_def s2_def)
        next
          case False
          obtain d s4 where d: "dispatch md5 others ev s3 = (d, s4)"
            by (cases "dispatch md5 others ev s3")
          have tok4: "accessToken s4 = anonymousSignIn uuid ev"
            using dispatch_token [OF keep, of md5 ev s3] d tok3 by simp
          have nc: "\<forall>r. e_event ev = None \<and> d = Inr r \<longrightarrow> \<not> no_code r"
            using dispatch_no_event [of ev md5 others s3] d by auto
          from Pair None rc Inr ac no_cors_error False d t
          have "(outcome, hs, s') = (case d of Inl e \<Rightarrow> (Inl e, hs1, s4)
                                              | Inr r \<Rightarrow> (Inr (Some r), hs1, s4))"
            by (simp add: try_block_def s2_def)
          with tok4 nc show ?thesis
            by (auto split: sum.splits)
        qed
      qed
    qed
  qed
qed

lemma fetch_example_delete:
  "fst (fetch rev ''fresh'' 250 no_others
          (example_request (empty_event\<lparr> e_event := Some ''COMMENT_DELETE_FOR_ADMIN'',
                                          e_id := Some ''c1'' \<rparr>))
          (example_state [] example_page))
   = ResponseJson (empty_res\<lparr> r_code := Some NEED_LOGIN, r_message := Some PleaseLogin \<rparr>) None
       [(''content-type'', JStr ''application/json;charset=UTF-8'')]"
  by (simp add: fetch_def try_block_def protect_def example_request_def example_state_def
        anonymousSignIn_def empty_event_def readConfig_def run_def allowCors_def dispatch_def
        commentDeleteForAdmin_def isAdmin_def getUid_def get_prop_def no_code_def empty_res_def
        Let_def)

lemma fetch_example_like:
  "fst (fetch rev ''fresh'' 250 no_others
          (example_request (empty_event\<lparr> e_event := Some ''COMMENT_LIKE'', e_id := Some ''c1'',
                                          e_accessToken := tk \<rparr>))
          (example_state [] example_page))
   = ResponseJson empty_res (Some (case tk of None \<Rightarrow> ''fresh'' | Some t \<Rightarrow> if t \<noteq> [] then t else ''fresh''))
       [(''content-type'', JStr ''application/json;charset=UTF-8'')]"
  by (simp add: fetch_def try_block_def protect_def example_request_def example_state_def
        anonymousSignIn_def empty_event_def readConfig_def run_def allowCors_def dispatch_def
        commentLike_def like_token getUid_def no_code_def empty_res_def
        Let_def split: option.splits)

text \<open>
  Claim C9, as the code has it. A caller without token whose request is answered with
  a code, here \<open>NEED_LOGIN\<close>, gets no token back; and a caller that sent the token
  \<^verbatim>\<open>mine\<close> gets it back with the answer to \<^verbatim>\<open>COMMENT_LIKE\<close>, because the test reads
  \<^verbatim>\<open>request.body.accessToken\<close>, a property that the body stream does not have,
  instead of the parsed event.
\<close>

theorem fetch_accessToken_counterexample:
  "e_accessToken (empty_event\<lparr> e_event := Some ''COMMENT_DELETE_FOR_ADMIN'', e_id := Some ''c1'' \<rparr>)
     = None
   \<and> fst (fetch rev ''fresh'' 250 no_others
          (example_request (empty_event\<lparr> e_event := Some ''COMMENT_DELETE_FOR_ADMIN'',
                                          e_id := Some ''c1'' \<rparr>))
          (example_state [] example_page))
     = ResponseJson (empty_res\<lparr> r_code := Some NEED_LOGIN, r_message := Some PleaseLogin \<rparr>) None
         [(''content-type'', JStr ''application/json;charset=UTF-8'')]
   \<and> fst (fetch rev ''fresh'' 250 no_others
          (example_request (empty_event\<lparr> e_event := Some ''COMMENT_LIKE'', e_id := Some ''c1'',
                                          e_accessToken := Some ''mine'' \<rparr>))
          (example_state [] example_page))
     = ResponseJson empty_res (Some ''mine'')
         [(''content-type'', JStr ''application/json;charset=UTF-8'')]"
  by (simp add: fetch_example_delete fetch_example_like) (simp add: empty_event_def)

text \<open>
  Claim C9, amended. Let no handler outside the model assign the module's token. Then
  every request is answered, with status 204 for method \<^verbatim>\<open>OPTIONS\<close> or with a JSON
  body; a body whose \<^verbatim>\<open>code\<close> is set and not zero has no \<^verbatim>\<open>accessToken\<close> field; and a
  body without code, or with code zero, sent to a caller that supplied no token in the
  request has the newly issued token in its \<^verbatim>\<open>accessToken\<close> field.
\<close>

theorem fetch_accessToken:
  assumes "\<forall>n e t. accessToken (snd (others n e t)) = accessToken t"
  shows "case fst (fetch md5 uuid M others req s) of
           Response204 hs \<Rightarrow> q_method req = ''OPTIONS''
         | ResponseJson r tok hs \<Rightarrow>
             (\<not> no_code r \<longrightarrow> tok = None)
           \<and> (no_code r
                \<and> (case q_body req of
                      Json ev \<Rightarrow> e_accessToken ev = None \<or> e_accessToken ev = Some []
                    | _ \<Rightarrow> True)
                \<longrightarrow> tok = Some uuid)
         | Unhandled m \<Rightarrow> False"
proof -
  define ev where "ev = (case q_body req of Json e \<Rightarrow> e | _ \<Rightarrow> empty_event)"
  obtain outcome hs s' where t: "try_block md5 uuid M others req ev s = (outcome, hs, s')"
    by (cases "try_block md5 uuid M others req ev s")
  note tr = try_block_result [OF assms t]
  have fresh: "anonymousSignIn uuid ev = uuid"
    if "case q_body req of Json ev \<Rightarrow> e_accessToken ev = None \<or> e_accessToken ev = Some []
        | _ \<Rightarrow> True"
    using that by (auto simp: ev_def anonymousSignIn_def empty_event_def split: body.splits)
  have nobody: "e_event ev = None" if "q_body req = NoBody"
    using that by (simp add: ev_def empty_event_def)
  show ?thesis
  proof (cases outcome)
    case (Inl e)
    with t show ?thesis
      by (simp add: fetch_def ev_def [symmetric] Let_def no_code_def)
  next
    case (Inr ro)
    show ?thesis
    proof (cases ro)
      case None
      with Inr t tr show ?thesis
        by (simp add: fetch_def ev_def [symmetric])
    next
      case (Some r)
      with Inr tr have tok: "accessToken s' = anonymousSignIn uuid ev"
        and nc: "e_event ev = None \<longrightarrow> \<not> no_code r"
        by simp_all
      from Some Inr t tok nc nobody fresh show ?thesis
        by (auto simp: fetch_def ev_def [symmetric] Let_def)
    qed
  qed
qed

theorem fetch_accessToken_witness:
  "(\<forall>n e t. accessToken (snd (no_others n e t)) = accessToken t)
   \<and> (\<exists>r hs. fst (fetch rev ''fresh'' 250 no_others
          (example_request (empty_event\<lparr> e_event := Some ''COMMENT_LIKE'', e_id := Some ''c1'',
                                          e_accessToken := None \<rparr>))
          (example_state [] example_page)) = ResponseJson r (Some ''fresh'') hs \<and> no_code r)
   \<and> (\<exists>r hs. fst (fetch rev ''fresh'' 250 no_others
          (example_request (empty_event\<lparr> e_event := Some ''COMMENT_DELETE_FOR_ADMIN'',
                                          e_id := Some ''c1'' \<rparr>))
          (example_state [] example_page)) = ResponseJson r None hs \<and> \<not> no_code r)"
proof -
  let ?like = "example_request (empty_event\<lparr> e_event := Some ''COMMENT_LIKE'', e_id := Some ''c1'',
                                          e_accessToken := None \<rparr>)"
  let ?del = "example_request (empty_event\<lparr> e_event := Some ''COMMENT_DELETE_FOR_ADMIN'',
                                          e_id := Some ''c1'' \<rparr>)"
  let ?s = "example_state [] example_page"
  have keep: "\<forall>n e t. accessToken (snd (no_others n e t)) = accessToken t"
    by (simp add: no_others_def)
  obtain tok1 where f1: "fst (fetch rev ''fresh'' 250 no_others ?like ?s)
      = ResponseJson empty_res tok1 [(''content-type'', JStr ''application/json;charset=UTF-8'')]"
    by (simp add: fetch_example_like)
  have n1: "no_code empty_res"
    by (simp add: no_code_def empty_res_def)
  have b1: "case q_body ?like of Json ev \<Rightarrow> e_accessToken ev = None \<or> e_accessToken ev = Some []
            | _ \<Rightarrow> True"
    by (simp add: example_request_def)
  from fetch_accessToken [OF keep, of ?like "''fresh''" rev 250 ?s] n1 b1
  have "tok1 = Some ''fresh''"
    unfolding f1 by simp
  with f1 n1 have r1: "\<exists>r hs. fst (fetch rev ''fresh'' 250 no_others ?like ?s)
      = ResponseJson r (Some ''fresh'') hs \<and> no_code r"
    by blast
  obtain tok2 where f2: "fst (fetch rev ''fresh'' 250 no_others ?del ?s)
      = ResponseJson (empty_res\<lparr> r_code := Some NEED_LOGIN, r_message := Some PleaseLogin \<rparr>) tok2
          [(''content-type'', JStr ''application/json;charset=UTF-8'')]"
    by (simp add: fetch_example_delete)
  have n2: "\<not> no_code (empty_res\<lparr> r_code := Some NEED_LOGIN, r_message := Some PleaseLogin \<rparr>)"
    by (simp add: no_code_def)
  from fetch_accessToken [OF keep, of ?del "''fresh''" rev 250 ?s] n2
  have "tok2 = None"
    unfolding f2 by simp
  with f2 n2 have r2: "\<exists>r hs. fst (fetch rev ''fresh'' 250 no_others ?del ?s)
      = ResponseJson r None hs \<and> \<not> no_code r"
    by blast
  from keep r1 r2 show ?thesis by blast
qed

end
